theory Spec2Isabelle
  imports Main
begin

section \<open>The search index of the datastep documentation\<close>

text \<open>
  The file \<^verbatim>\<open>searchindex.js\<close> is one statement, the call
  \<^verbatim>\<open>Search.setIndex({...})\<close>, whose argument is an object literal built from
  strings, non-negative integer literals, array literals and nested object literals.
  There is no function in the file: the model is the value of that literal.
\<close>

subsection \<open>Values of the literal\<close>

text \<open>
  An object literal is kept as the list of its properties in the order in which the file
  writes them, so that the keys and their number can be read off; a JavaScript number
  literal of the file is an integer and is kept as an \<open>int\<close>.
\<close>

datatype json =
    JNum int
  | JStr string
  | JArr "json list"
  | JObj "(string \<times> json) list"

text \<open>
  Reading a property: where a literal repeats a key, JavaScript keeps the last value
  written, hence the lookup from the right. A value that is not an object has no
  property of the literal.
\<close>

fun field :: "string \<Rightarrow> json \<Rightarrow> json option" where
  "field k (JObj kvs) = map_of (rev kvs) k"
| "field k _ = None"

fun entries :: "json \<Rightarrow> (string \<times> json) list" where
  "entries (JObj kvs) = kvs"
| "entries _ = []"

fun elems :: "json \<Rightarrow> json list" where
  "elems (JArr xs) = xs"
| "elems _ = []"

definition keys :: "json \<Rightarrow> string list" where
  "keys v = map fst (entries v)"

subsection \<open>The properties of the object, as the file writes them\<close>

text \<open>
  Every string of the file is plain ASCII but for one escape in the fourth title, the
  code point U+2019 (a right single quotation mark). A HOL character is a byte, so that
  one character is written as the three bytes of its UTF-8 encoding.
\<close>

definition docnames :: json where
  "docnames = JArr
   [JStr ''contributing'', JStr ''datastep'', JStr ''datastep.bin'', JStr ''index'',
    JStr ''installation'', JStr ''modules'']"

definition envversion :: json where
  "envversion = JObj
   [(''sphinx.domains.c'', JNum 1), (''sphinx.domains.changeset'', JNum 1),
    (''sphinx.domains.citation'', JNum 1), (''sphinx.domains.cpp'', JNum 1),
    (''sphinx.domains.index'', JNum 1), (''sphinx.domains.javascript'', JNum 1),
    (''sphinx.domains.math'', JNum 2), (''sphinx.domains.python'', JNum 1),
    (''sphinx.domains.rst'', JNum 1), (''sphinx.domains.std'', JNum 1),
    (''sphinx.ext.viewcode'', JNum 1), (''sphinx'', JNum 56)]"

definition filenames :: json where
  "filenames = JArr
   [JStr ''contributing.rst'', JStr ''datastep.rst'', JStr ''datastep.bin.rst'',
    JStr ''index.rst'', JStr ''installation.rst'', JStr ''modules.rst'']"

definition objects :: json where
  "objects = JObj
   [('''', JObj
      [(''datastep'', JArr [JNum 1, JNum 0, JNum 0, JStr ''-''])]),
    (''datastep.bin'', JObj
      [(''make_new_step'', JArr [JNum 2, JNum 0, JNum 0, JStr ''-''])]),
    (''datastep.bin.make_new_step'', JObj
      [(''Args'', JArr [JNum 2, JNum 1, JNum 1, JStr '''']),
       (''find_last_import_line'', JArr [JNum 2, JNum 2, JNum 1, JStr '''']),
       (''insert_new_class'', JArr [JNum 2, JNum 2, JNum 1, JStr '''']),
       (''insert_new_import'', JArr [JNum 2, JNum 2, JNum 1, JStr '''']),
       (''line_match__all__'', JArr [JNum 2, JNum 2, JNum 1, JStr '''']),
       (''list_match_in_line'', JArr [JNum 2, JNum 2, JNum 1, JStr '''']),
       (''main'', JArr [JNum 2, JNum 2, JNum 1, JStr ''''])]),
    (''datastep.exceptions'', JObj
      [(''DirectoryNotFoundError'', JArr [JNum 1, JNum 3, JNum 1, JStr '''']),
       (''InvalidGitStatus'', JArr [JNum 1, JNum 3, JNum 1, JStr '''']),
       (''PackagingError'', JArr [JNum 1, JNum 3, JNum 1, JStr ''''])]),
    (''datastep.file_utils'', JObj
      [(''create_unique_logical_key'', JArr [JNum 1, JNum 2, JNum 1, JStr '''']),
       (''make_json_serializable'', JArr [JNum 1, JNum 2, JNum 1, JStr '''']),
       (''manifest_filepaths_abs2rel'', JArr [JNum 1, JNum 2, JNum 1, JStr '''']),
       (''manifest_filepaths_rel2abs'', JArr [JNum 1, JNum 2, JNum 1, JStr '''']),
       (''resolve_directory'', JArr [JNum 1, JNum 2, JNum 1, JStr '''']),
       (''resolve_filepath'', JArr [JNum 1, JNum 2, JNum 1, JStr ''''])]),
    (''datastep.quilt_utils'', JObj
      [(''ValidationDetails'', JArr [JNum 1, JNum 1, JNum 1, JStr '''']),
       (''clean_metadata'', JArr [JNum 1, JNum 2, JNum 1, JStr '''']),
       (''create_package'', JArr [JNum 1, JNum 2, JNum 1, JStr '''']),
       (''route_validator'', JArr [JNum 1, JNum 2, JNum 1, JStr '''']),
       (''validate_filepath'', JArr [JNum 1, JNum 2, JNum 1, JStr '''']),
       (''validate_manifest'', JArr [JNum 1, JNum 2, JNum 1, JStr ''''])]),
    (''datastep.quilt_utils.ValidationDetails'', JObj
      [(''details_type'', JArr [JNum 1, JNum 4, JNum 1, JStr '''']),
       (''index'', JArr [JNum 1, JNum 4, JNum 1, JStr '''']),
       (''origin_column'', JArr [JNum 1, JNum 4, JNum 1, JStr '''']),
       (''value'', JArr [JNum 1, JNum 4, JNum 1, JStr ''''])]),
    (''datastep.step'', JObj
      [(''Step'', JArr [JNum 1, JNum 1, JNum 1, JStr '''']),
       (''log_run_params'', JArr [JNum 1, JNum 2, JNum 1, JStr ''''])]),
    (''datastep.step.Step'', JObj
      [(''checkout'', JArr [JNum 1, JNum 4, JNum 1, JStr '''']),
       (''clean'', JArr [JNum 1, JNum 4, JNum 1, JStr '''']),
       (''get_result'', JArr [JNum 1, JNum 4, JNum 1, JStr '''']),
       (''manifest_filepaths_abs2rel'', JArr [JNum 1, JNum 4, JNum 1, JStr '''']),
       (''manifest_filepaths_rel2abs'', JArr [JNum 1, JNum 4, JNum 1, JStr '''']),
       (''project_local_staging_dir'', JArr [JNum 1, JNum 4, JNum 1, JStr '''']),
       (''pull'', JArr [JNum 1, JNum 4, JNum 1, JStr '''']),
       (''push'', JArr [JNum 1, JNum 4, JNum 1, JStr '''']),
       (''quilt_package_name'', JArr [JNum 1, JNum 4, JNum 1, JStr '''']),
       (''quilt_package_owner'', JArr [JNum 1, JNum 4, JNum 1, JStr '''']),
       (''run'', JArr [JNum 1, JNum 4, JNum 1, JStr '''']),
       (''step_local_staging_dir'', JArr [JNum 1, JNum 4, JNum 1, JStr '''']),
       (''step_name'', JArr [JNum 1, JNum 4, JNum 1, JStr '''']),
       (''storage_bucket'', JArr [JNum 1, JNum 4, JNum 1, JStr '''']),
       (''upstream_tasks'', JArr [JNum 1, JNum 4, JNum 1, JStr ''''])]),
    (''datastep'', JObj
      [(''bin'', JArr [JNum 2, JNum 0, JNum 0, JStr ''-'']),
       (''constants'', JArr [JNum 1, JNum 0, JNum 0, JStr ''-'']),
       (''exceptions'', JArr [JNum 1, JNum 0, JNum 0, JStr ''-'']),
       (''file_utils'', JArr [JNum 1, JNum 0, JNum 0, JStr ''-'']),
       (''get_module_version'', JArr [JNum 1, JNum 2, JNum 1, JStr '''']),
       (''quilt_utils'', JArr [JNum 1, JNum 0, JNum 0, JStr ''-'']),
       (''step'', JArr [JNum 1, JNum 0, JNum 0, JStr ''-''])])]"

definition objnames :: json where
  "objnames = JObj
   [(''0'', JArr [JStr ''py'', JStr ''module'', JStr ''Python module'']),
    (''1'', JArr [JStr ''py'', JStr ''class'', JStr ''Python class'']),
    (''2'', JArr [JStr ''py'', JStr ''function'', JStr ''Python function'']),
    (''3'', JArr [JStr ''py'', JStr ''exception'', JStr ''Python exception'']),
    (''4'', JArr [JStr ''py'', JStr ''method'', JStr ''Python method''])]"

definition objtypes :: json where
  "objtypes = JObj
   [(''0'', JStr ''py:module''), (''1'', JStr ''py:class''), (''2'', JStr ''py:function''),
    (''3'', JStr ''py:exception''), (''4'', JStr ''py:method'')]"

definition terms :: json where
  "terms = JObj
   [(''class'', JArr [JNum 1, JNum 2, JNum 3]), (''default'', JNum 1), (''final'', JNum 1),
    (''float'', JNum 1), (''function'', JArr [JNum 1, JNum 3]), (''int'', JNum 1),
    (''new'', JArr [JNum 1, JNum 3]), (''public'', JNum 4), (''return'', JNum 1),
    (''short'', JNum 0), (''true'', JNum 1), (''For'', JNum 3),
    (''The'', JArr [JNum 1, JNum 4]), (''Then'', JNum 0), (''There'', JNum 1),
    (''Useful'', JNum 1), (''absolut'', JNum 1), (''add'', JNum 0), (''address'', JNum 1),
    (''after'', JNum 1), (''alia'', JNum 1), (''all'', JArr [JNum 0, JNum 1]),
    (''allen'', JNum 3), (''allencellmodel'', JArr [JNum 3, JNum 4]), (''also'', JNum 0),
    (''alwai'', JArr [JNum 0, JNum 1, JNum 4]), (''amount'', JNum 3), (''anaconda'', JNum 0),
    (''ani'', JNum 1), (''anoth'', JNum 1), (''appreci'', JNum 0), (''arg'', JNum 2),
    (''argpars'', JNum 2), (''attempt'', JNum 1), (''base'', JArr [JNum 1, JNum 2, JNum 3]),
    (''becom'', JNum 1), (''bin'', JArr [JNum 1, JNum 5]), (''bit'', JNum 0),
    (''bool'', JNum 1), (''branch'', JNum 0), (''bucket'', JNum 1), (''bugfix'', JNum 0),
    (''build'', JNum 0), (''bumpvers'', JArr [JNum 0, JNum 3]),
    (''can'', JArr [JNum 0, JNum 1, JNum 4]), (''centric'', JNum 3), (''chang'', JNum 0),
    (''check'', JNum 0), (''checkout'', JArr [JNum 0, JNum 1]), (''clean'', JNum 1),
    (''clean_metadata'', JNum 1), (''clone'', JArr [JNum 0, JNum 4]),
    (''code'', JArr [JNum 1, JNum 3]), (''column'', JNum 1),
    (''com'', JArr [JNum 0, JNum 3, JNum 4]), (''command'', JNum 4),
    (''commit'', JArr [JNum 0, JNum 1]), (''complet'', JNum 1), (''comput'', JNum 1),
    (''config'', JNum 1), (''constant'', JNum 5), (''content'', JNum 5),
    (''context'', JArr [JNum 1, JNum 3]), (''contribut'', JNum 3), (''convert'', JNum 1),
    (''cookiecutt'', JNum 3), (''copi'', JNum 4), (''core'', JNum 1),
    (''creat'', JArr [JNum 0, JNum 1, JNum 3]), (''create_packag'', JNum 1),
    (''create_unique_logical_kei'', JNum 1), (''credit'', JNum 0), (''csv'', JNum 1),
    (''curl'', JNum 4), (''dag'', JArr [JNum 1, JNum 3]), (''data'', JArr [JNum 1, JNum 3]),
    (''data_vers'', JNum 1), (''datafram'', JNum 1), (''datastep'', JArr [JNum 0, JNum 4]),
    (''debug'', JNum 1), (''defin'', JNum 1), (''depend'', JNum 1), (''dependeci'', JNum 1),
    (''deploi'', JNum 2), (''descript'', JNum 0), (''detail'', JArr [JNum 0, JNum 1]),
    (''details_typ'', JNum 1), (''dev'', JNum 0), (''develop'', JArr [JNum 0, JNum 1]),
    (''dict'', JNum 1), (''dictionari'', JNum 1), (''differ'', JNum 1),
    (''direct_upstream_task'', JNum 1), (''directori'', JArr [JNum 1, JNum 2]),
    (''directorynotfounderror'', JNum 1), (''distributed_executor_address'', JNum 1),
    (''don'', JNum 4), (''done'', JNum 0), (''download'', JNum 4), (''downstream'', JNum 1),
    (''dure'', JNum 1), (''each'', JNum 3), (''easier'', JNum 1), (''edit'', JNum 0),
    (''either'', JNum 4), (''enforc'', JNum 1), (''engin'', JNum 1), (''entir'', JNum 1),
    (''environ'', JNum 0), (''etc'', JNum 1), (''everi'', JNum 0), (''except'', JNum 5),
    (''executor'', JNum 1), (''fals'', JNum 1), (''featur'', JNum 0), (''few'', JNum 1),
    (''field'', JNum 1), (''file'', JArr [JNum 0, JNum 1]), (''file_util'', JNum 5),
    (''filepath'', JNum 1), (''filepath_column'', JNum 1), (''find_last_import_lin'', JNum 2),
    (''first'', JNum 1), (''flag'', JNum 1), (''flow'', JNum 1), (''follow'', JNum 1),
    (''fork'', JNum 0), (''found'', JNum 0), (''frame'', JNum 1), (''free'', JNum 3),
    (''from'', JArr [JNum 1, JNum 3]), (''full'', JNum 3), (''func'', JNum 1),
    (''gener'', JNum 1), (''get'', JArr [JNum 1, JNum 2, JNum 3]),
    (''get_module_vers'', JNum 1), (''get_result'', JNum 1),
    (''git'', JArr [JNum 0, JNum 1, JNum 3, JNum 4]),
    (''github'', JArr [JNum 0, JNum 3, JNum 4]), (''given'', JNum 0), (''greatli'', JNum 0),
    (''guid'', JNum 4), (''handl'', JArr [JNum 0, JNum 1]), (''hard'', JNum 1),
    (''have'', JNum 4), (''haven'', JNum 1), (''head'', JNum 3), (''heavi'', JNum 1),
    (''heavili'', JNum 3), (''help'', JNum 0), (''here'', JArr [JNum 0, JNum 1]),
    (''how'', JArr [JNum 0, JNum 1]), (''howev'', JNum 1), (''http'', JArr [JNum 3, JNum 4]),
    (''idea'', JNum 3), (''includ'', JNum 0), (''index'', JArr [JNum 1, JNum 3]),
    (''inform'', JNum 3), (''inherit'', JNum 1), (''initi'', JNum 1),
    (''insert_new_class'', JNum 2), (''insert_new_import'', JNum 2),
    (''instal'', JArr [JNum 0, JNum 2]), (''instanc'', JNum 1), (''institut'', JNum 3),
    (''invalidgitstatu'', JNum 1), (''isn'', JNum 1), (''item'', JNum 1), (''iter'', JNum 1),
    (''itself'', JNum 3), (''json'', JNum 1), (''kwarg'', JNum 1), (''larg'', JNum 3),
    (''last_old_lin'', JNum 2), (''latest'', JNum 1), (''level'', JNum 1),
    (''librari'', JNum 3), (''licens'', JNum 3), (''line'', JNum 2),
    (''line_match__all__'', JNum 2), (''lint'', JNum 0), (''list'', JNum 1),
    (''list_match_in_lin'', JNum 2), (''littl'', JNum 0), (''local'', JArr [JNum 0, JNum 1]),
    (''log'', JNum 1), (''log_run_param'', JNum 1), (''look'', JNum 3), (''lowercas'', JNum 1),
    (''main'', JNum 2), (''maintain'', JNum 0), (''major'', JNum 0),
    (''make'', JArr [JNum 0, JNum 1, JNum 3]), (''make_json_serializ'', JNum 1),
    (''make_new_step'', JArr [JNum 1, JNum 5]), (''manag'', JNum 1), (''manifest'', JNum 1),
    (''manifest_filepaths_abs2rel'', JNum 1), (''manifest_filepaths_rel2ab'', JNum 1),
    (''manipul'', JNum 1), (''map'', JNum 1), (''master'', JNum 4), (''match'', JNum 1),
    (''mean'', JNum 1), (''merg'', JNum 0), (''metadata'', JNum 1),
    (''metadata_column'', JNum 1), (''method'', JArr [JNum 1, JNum 4]), (''minor'', JNum 0),
    (''mode'', JNum 0), (''modul'', JArr [JNum 3, JNum 5]), (''more'', JArr [JNum 1, JNum 3]),
    (''most'', JArr [JNum 1, JNum 4]), (''much'', JNum 1), (''name'', JNum 1),
    (''namespac'', JNum 2), (''need'', JNum 1), (''new_class_dir_str'', JNum 2),
    (''new_class_name_str'', JNum 2), (''none'', JNum 1), (''note'', JNum 1),
    (''now'', JNum 0), (''number'', JNum 1), (''object'', JNum 1), (''old_list_str'', JNum 2),
    (''onc'', JArr [JNum 0, JNum 4]), (''onli'', JNum 1), (''option'', JNum 1),
    (''origin'', JArr [JNum 0, JNum 1]), (''origin_column'', JNum 1),
    (''other'', JArr [JNum 0, JNum 1]), (''our'', JNum 1), (''output'', JNum 1),
    (''packag'', JArr [JNum 3, JNum 5]), (''packagingerror'', JNum 1), (''page'', JNum 3),
    (''pair'', JNum 3), (''panda'', JNum 1), (''paramet'', JNum 1), (''parent'', JNum 2),
    (''parquet'', JNum 1), (''part'', JNum 1), (''pass'', JArr [JNum 0, JNum 1]),
    (''patch'', JNum 0), (''path'', JNum 1), (''pathlib'', JNum 1), (''physical_kei'', JNum 1),
    (''pickabl'', JNum 1), (''pip'', JArr [JNum 0, JNum 2, JNum 3, JNum 4]),
    (''place'', JNum 1), (''pleas'', JNum 3), (''possibl'', JNum 0), (''preconfigur'', JNum 1),
    (''prefect'', JNum 1), (''prefer'', JNum 4), (''previous'', JNum 1), (''prior'', JNum 1),
    (''problem'', JNum 1), (''process'', JArr [JNum 1, JNum 4]), (''produc'', JNum 1),
    (''progress_bar'', JNum 1), (''project'', JNum 0), (''project_local_staging_dir'', JNum 1),
    (''properti'', JNum 1), (''protect'', JNum 1), (''pull'', JArr [JNum 0, JNum 1]),
    (''pure'', JNum 1), (''purpos'', JNum 1), (''push'', JArr [JNum 0, JNum 1]),
    (''py_txt'', JNum 2), (''pypi'', JNum 0), (''python'', JArr [JNum 0, JNum 4]),
    (''quilt3'', JNum 1), (''quilt'', JNum 1), (''quilt_package_nam'', JNum 1),
    (''quilt_package_own'', JNum 1), (''quilt_util'', JNum 5), (''ran'', JNum 1),
    (''rare'', JNum 3), (''read'', JNum 0), (''readi'', JArr [JNum 0, JNum 1]),
    (''recent'', JArr [JNum 1, JNum 4]), (''reciev'', JNum 1), (''recommend'', JNum 0),
    (''recurs'', JNum 0), (''refer'', JNum 1), (''reject'', JNum 1), (''rel'', JNum 1),
    (''relat'', JNum 3), (''relative_dir'', JNum 1), (''releas'', JNum 3), (''reli'', JNum 1),
    (''remind'', JNum 0), (''remot'', JNum 1), (''remov'', JNum 1),
    (''repo'', JArr [JNum 0, JNum 4]), (''repositori'', JNum 4),
    (''request'', JArr [JNum 0, JNum 1]), (''requir'', JNum 1), (''reset'', JNum 1),
    (''resolv'', JNum 0), (''resolve_directori'', JNum 1), (''resolve_filepath'', JNum 1),
    (''result'', JNum 1), (''retriev'', JNum 1), (''rich'', JNum 3), (''route_valid'', JNum 1),
    (''run'', JArr [JNum 0, JNum 1, JNum 4]), (''sampl'', JNum 2), (''script'', JNum 2),
    (''search'', JNum 3), (''see'', JNum 3), (''send'', JNum 1),
    (''set'', JArr [JNum 0, JNum 1]), (''setup'', JNum 4), (''should'', JArr [JNum 1, JNum 3]),
    (''shouldn'', JNum 1), (''softwar'', JNum 3), (''sole'', JNum 1), (''some'', JNum 1),
    (''sourc'', JArr [JNum 1, JNum 2]), (''specif'', JNum 1),
    (''stabl'', JArr [JNum 0, JNum 3]), (''stage'', JNum 1), (''start'', JNum 3),
    (''state'', JNum 1), (''statu'', JNum 1), (''step'', JArr [JNum 3, JNum 5]),
    (''step_local_staging_dir'', JNum 1), (''step_nam'', JNum 1), (''step_pkg_root'', JNum 1),
    (''stepwis'', JNum 1), (''stepworkflow'', JNum 3), (''storage_bucket'', JNum 1),
    (''store'', JNum 1), (''str'', JNum 1), (''strict'', JNum 1), (''string'', JNum 1),
    (''submit'', JNum 0), (''submodul'', JArr [JNum 0, JNum 5]), (''subpackag'', JNum 5),
    (''support'', JNum 1), (''sure'', JNum 0), (''tag'', JNum 0), (''tarbal'', JNum 4),
    (''task'', JNum 1), (''termin'', JNum 4), (''test'', JNum 0), (''thei'', JNum 0),
    (''them'', JNum 1), (''thi'', JArr [JNum 1, JNum 2, JNum 3, JNum 4]), (''those'', JNum 1),
    (''though'', JNum 1), (''through'', JArr [JNum 0, JNum 1, JNum 4]),
    (''tied'', JArr [JNum 1, JNum 3]), (''tiff'', JNum 0), (''top'', JNum 1),
    (''tupl'', JNum 1), (''type'', JNum 1), (''union'', JNum 1), (''upload'', JNum 1),
    (''upstream'', JNum 1), (''upstream_task'', JNum 1), (''use'', JNum 1),
    (''used'', JArr [JNum 1, JNum 3]), (''user'', JArr [JNum 1, JNum 2]),
    (''using'', JArr [JNum 1, JNum 2, JNum 3]), (''util'', JArr [JNum 1, JNum 3]),
    (''validate_filepath'', JNum 1), (''validate_manifest'', JNum 1),
    (''validationdetail'', JNum 1), (''valu'', JNum 1), (''version'', JArr [JNum 0, JNum 1]),
    (''virtualenv'', JArr [JNum 0, JNum 2]), (''visit'', JNum 3), (''want'', JNum 1),
    (''websit'', JNum 0), (''welcom'', JNum 0), (''what'', JNum 1),
    (''when'', JArr [JNum 0, JNum 1, JNum 2]), (''which'', JNum 1), (''work'', JNum 0),
    (''workflow'', JArr [JNum 1, JNum 3]), (''workflow_config'', JNum 1), (''would'', JNum 1),
    (''you'', JArr [JNum 0, JNum 1, JNum 3, JNum 4]),
    (''your'', JArr [JNum 0, JNum 1, JNum 4]), (''your_development_typ'', JNum 0),
    (''your_name_her'', JNum 0)]"

definition titles :: json where
  "titles = JArr
   [JStr ''Contributing'', JStr ''datastep package'', JStr ''datastep.bin package'',
    JStr (''Welcome to datastep'' @ [CHR 0xE2, CHR 0x80, CHR 0x99] @ ''s documentation!''),
    JStr ''Installation'', JStr ''datastep'']"

definition titleterms :: json where
  "titleterms = JObj
   [(''bin'', JNum 2), (''constant'', JNum 1), (''content'', JArr [JNum 1, JNum 2]),
    (''contribut'', JNum 0), (''datastep'', JArr [JNum 1, JNum 2, JNum 3, JNum 5]),
    (''deploi'', JNum 0), (''develop'', JNum 3), (''document'', JNum 3), (''except'', JNum 1),
    (''file_util'', JNum 1), (''from'', JNum 4), (''get'', JNum 0), (''indic'', JNum 3),
    (''instal'', JArr [JNum 3, JNum 4]), (''make_new_step'', JNum 2),
    (''modul'', JArr [JNum 1, JNum 2]), (''packag'', JArr [JNum 1, JNum 2]),
    (''quilt_util'', JNum 1), (''releas'', JNum 4), (''sourc'', JNum 4), (''stabl'', JNum 4),
    (''start'', JNum 0), (''step'', JNum 1), (''submodul'', JArr [JNum 1, JNum 2]),
    (''subpackag'', JNum 1), (''tabl'', JNum 3), (''welcom'', JNum 3)]"

definition searchindex :: json where
  "searchindex = JObj
   [(''docnames'', docnames),
    (''envversion'', envversion),
    (''filenames'', filenames),
    (''objects'', objects),
    (''objnames'', objnames),
    (''objtypes'', objtypes),
    (''terms'', terms),
    (''titles'', titles),
    (''titleterms'', titleterms)]"
subsection \<open>Vocabulary of the index\<close>

text \<open>
  A reference into an array: a number literal that is a natural number below the length
  of the array. A document index is a reference into \<open>docnames\<close>.
\<close>

definition index_into :: "json list \<Rightarrow> json \<Rightarrow> bool" where
  "index_into xs v = (case v of JNum n \<Rightarrow> 0 \<le> n \<and> n < int (length xs) | _ \<Rightarrow> False)"

definition doc_index :: "json \<Rightarrow> bool" where
  "doc_index v = index_into (elems docnames) v"

fun is_nat :: "json \<Rightarrow> bool" where
  "is_nat (JNum n) = (0 \<le> n)"
| "is_nat _ = False"

fun is_str :: "json \<Rightarrow> bool" where
  "is_str (JStr s) = True"
| "is_str _ = False"

fun is_obj :: "json \<Rightarrow> bool" where
  "is_obj (JObj kvs) = True"
| "is_obj _ = False"

text \<open>
  The value of a token in \<open>terms\<close> and \<open>titleterms\<close> is either one number or an
  array of numbers; \<open>postings\<close> gives the references it holds in both cases.
\<close>

fun postings :: "json \<Rightarrow> json list" where
  "postings (JArr xs) = xs"
| "postings v = [v]"

fun num_less :: "json \<Rightarrow> json \<Rightarrow> bool" where
  "num_less (JNum a) (JNum b) = (a < b)"
| "num_less _ _ = False"

text \<open>
  A posting value that is an array: not empty, and each element a number smaller than
  every later one.
\<close>

fun postings_ascending :: "json \<Rightarrow> bool" where
  "postings_ascending (JArr xs) = (xs \<noteq> [] \<and> sorted_wrt num_less xs)"
| "postings_ascending _ = True"

text \<open>
  The shape of a value of an inner mapping of \<open>objects\<close>: an array of exactly four
  elements, three natural numbers and a string.
\<close>

definition tuple4 :: "json \<Rightarrow> bool" where
  "tuple4 t = (case t of
      JArr [d, c, p, a] \<Rightarrow> is_nat d \<and> is_nat c \<and> is_nat p \<and> is_str a
    | _ \<Rightarrow> False)"

text \<open>
  A number used as a property key is the key written in decimal, as JavaScript converts
  it: \<^verbatim>\<open>o[1]\<close> reads the property \<^verbatim>\<open>"1"\<close>.
\<close>

fun digits :: "nat \<Rightarrow> string" where
  "digits n = (if n < 10 then [''0123456789'' ! n]
               else digits (n div 10) @ [''0123456789'' ! (n mod 10)])"

declare digits.simps [simp del]

definition key_of :: "int \<Rightarrow> string" where
  "key_of i = (if i < 0 then CHR ''-'' # digits (nat (- i)) else digits (nat i))"

definition doc_keys :: "string list" where
  "doc_keys = map (\<lambda>n. key_of (int n)) [0..<length (elems docnames)]"

definition is_upper :: "char \<Rightarrow> bool" where
  "is_upper c = (c \<in> set ''ABCDEFGHIJKLMNOPQRSTUVWXYZ'')"

definition has_upper :: "string \<Rightarrow> bool" where
  "has_upper s = list_ex is_upper s"

text \<open>
  The category a short code stands for, read from \<open>objnames\<close> (the middle element of
  its triple), and the type name it stands for, read from \<open>objtypes\<close>.
\<close>

definition category_of :: "string \<Rightarrow> string option" where
  "category_of c = (case field c objnames of
      Some (JArr [JStr d, JStr cat, JStr l]) \<Rightarrow> Some cat
    | _ \<Rightarrow> None)"

definition objtype_of :: "string \<Rightarrow> string option" where
  "objtype_of c = (case field c objtypes of Some (JStr s) \<Rightarrow> Some s | _ \<Rightarrow> None)"

section \<open>Properties of the index\<close>

subsection \<open>Auxiliary facts\<close>

lemma docnames_length: "length (elems docnames) = 6"
  by (simp add: docnames_def)

lemma searchindex_fields:
  "field ''docnames'' searchindex = Some docnames"
  "field ''envversion'' searchindex = Some envversion"
  "field ''filenames'' searchindex = Some filenames"
  "field ''objects'' searchindex = Some objects"
  "field ''objnames'' searchindex = Some objnames"
  "field ''objtypes'' searchindex = Some objtypes"
  "field ''terms'' searchindex = Some terms"
  "field ''titles'' searchindex = Some titles"
  "field ''titleterms'' searchindex = Some titleterms"
  by (simp_all add: searchindex_def)

lemma key_of_small:
  "key_of 0 = ''0''" "key_of 1 = ''1''" "key_of 2 = ''2''" "key_of 3 = ''3''"
  "key_of 4 = ''4''" "key_of 5 = ''5''"
  by (simp_all add: key_of_def digits.simps)

lemma doc_keys_eq: "doc_keys = [''0'', ''1'', ''2'', ''3'', ''4'', ''5'']"
  by (simp add: doc_keys_def docnames_length upt_rec key_of_small)

lemma objects_refs:
  "list_all (\<lambda>(m, syms). list_all (\<lambda>(nm, t).
      case t of JArr (d # rest) \<Rightarrow> doc_index d | _ \<Rightarrow> False) (entries syms)) (entries objects)"
  by code_simp

lemma terms_refs:
  "list_all (\<lambda>(k, v). list_all doc_index (postings v)) (entries terms)"
  by code_simp

lemma titleterms_refs:
  "list_all (\<lambda>(k, v). list_all doc_index (postings v)) (entries titleterms)"
  by code_simp

lemma titles_length: "length (elems titles) = 6"
  by (simp add: titles_def)

lemma titleterms_title_refs:
  "list_all (\<lambda>(k, v). list_all (index_into (elems titles)) (postings v)) (entries titleterms)"
  by code_simp

lemma objects_tuples:
  "list_all (\<lambda>(m, syms). is_obj syms \<and> list_all (\<lambda>(nm, t). tuple4 t) (entries syms))
     (entries objects)"
  by code_simp

lemma objects_type_codes:
  "list_all (\<lambda>(m, syms). list_all (\<lambda>(nm, t).
      case t of
        JArr [d, JNum c, JNum p, a] \<Rightarrow>
          field (key_of c) objnames \<noteq> None \<and> field (key_of c) objtypes \<noteq> None \<and>
          p = (if c = 0 then 0 else 1)
      | _ \<Rightarrow> False) (entries syms)) (entries objects)"
  by code_simp

lemma terms_ascending: "list_all (\<lambda>(k, v). postings_ascending v) (entries terms)"
  by code_simp

lemma titleterms_ascending: "list_all (\<lambda>(k, v). postings_ascending v) (entries titleterms)"
  by code_simp

lemma file_per_document:
  "list_all2 (\<lambda>d f. \<exists>s. d = JStr s \<and> f = JStr (s @ ''.rst'')) (elems docnames) (elems filenames)"
  by (simp add: docnames_def filenames_def)

subsection \<open>References to documents\<close>

text \<open>
  Claim C1. Every document index that the object refers to is a natural number below
  the length of \<open>docnames\<close>, which is 6: the first element of every tuple of every
  inner mapping of \<open>objects\<close>, and every number that is a value, or an element of an
  array value, of \<open>terms\<close> and of \<open>titleterms\<close>.
\<close>

theorem doc_indices_in_bounds:
  "length (elems docnames) = 6 \<and>
   (\<forall>(m, syms) \<in> set (entries objects). \<forall>(nm, t) \<in> set (entries syms).
      case t of JArr (d # rest) \<Rightarrow> doc_index d | _ \<Rightarrow> False) \<and>
   (\<forall>(k, v) \<in> set (entries terms). \<forall>d \<in> set (postings v). doc_index d) \<and>
   (\<forall>(k, v) \<in> set (entries titleterms). \<forall>d \<in> set (postings v). doc_index d)"
  using objects_refs terms_refs titleterms_refs docnames_length
  unfolding list_all_iff by blast

text \<open>
  Claim C1, at three references of the file: the tuple of \<open>make_new_step\<close> under
  \<open>datastep.bin\<close>, the postings of the token \<open>alwai\<close>, and the posting of the title
  token \<open>bin\<close>.
\<close>

theorem doc_indices_in_bounds_witness:
  "(''datastep.bin'', JObj [(''make_new_step'', JArr [JNum 2, JNum 0, JNum 0, JStr ''-''])])
     \<in> set (entries objects) \<and>
   (''alwai'', JArr [JNum 0, JNum 1, JNum 4]) \<in> set (entries terms) \<and>
   (''bin'', JNum 2) \<in> set (entries titleterms) \<and>
   doc_index (JNum 2) \<and> doc_index (JNum 0) \<and> doc_index (JNum 1) \<and> doc_index (JNum 4)"
proof -
  have o: "(''datastep.bin'', JObj [(''make_new_step'', JArr [JNum 2, JNum 0, JNum 0, JStr ''-''])])
     \<in> set (entries objects)"
    by (simp add: objects_def)
  have t: "(''alwai'', JArr [JNum 0, JNum 1, JNum 4]) \<in> set (entries terms)"
    by code_simp
  have tt: "(''bin'', JNum 2) \<in> set (entries titleterms)"
    by (simp add: titleterms_def)
  from doc_indices_in_bounds o
  have "\<forall>(nm, t) \<in> set (entries (JObj [(''make_new_step'', JArr [JNum 2, JNum 0, JNum 0, JStr ''-''])])).
      case t of JArr (d # rest) \<Rightarrow> doc_index d | _ \<Rightarrow> False"
    by blast
  then have a: "doc_index (JNum 2)" by simp
  from doc_indices_in_bounds t
  have "\<forall>d \<in> set (postings (JArr [JNum 0, JNum 1, JNum 4])). doc_index d"
    by blast
  then have b: "doc_index (JNum 0) \<and> doc_index (JNum 1) \<and> doc_index (JNum 4)" by simp
  from doc_indices_in_bounds tt
  have "\<forall>d \<in> set (postings (JNum 2)). doc_index d"
    by blast
  with o t tt a b show ?thesis by simp
qed

subsection \<open>Top-level keys\<close>

text \<open>
  Claim C2 says that the object has the keys \<open>docnames\<close>, \<open>filenames\<close>, \<open>objects\<close>,
  \<open>objnames\<close>, \<open>objtypes\<close>, \<open>terms\<close>, \<open>titles\<close>, \<open>titleterms\<close> and no others. The
  file writes one more key, \<open>envversion\<close>, which is none of them.
\<close>

theorem top_level_keys_counterexample:
  "''envversion'' \<in> set (keys searchindex) \<and>
   ''envversion'' \<notin> {''docnames'', ''filenames'', ''objects'', ''objnames'', ''objtypes'',
      ''terms'', ''titles'', ''titleterms''}"
  by (simp add: keys_def searchindex_def)

text \<open>
  Claim C2, amended. The object has exactly nine top-level keys, each written once: the
  eight keys above and \<open>envversion\<close>, in this order.
\<close>

theorem top_level_keys:
  "keys searchindex =
     [''docnames'', ''envversion'', ''filenames'', ''objects'', ''objnames'', ''objtypes'',
      ''terms'', ''titles'', ''titleterms''] \<and>
   distinct (keys searchindex) \<and> length (keys searchindex) = 9"
  by (simp add: keys_def searchindex_def)

subsection \<open>Keys of \<open>objects\<close>\<close>

text \<open>
  Claim C3 says that every top-level key of \<open>objects\<close> is a document index. The key
  \<open>datastep.bin\<close> is a key of \<open>objects\<close> and is not the decimal form of any of the
  six document indices.
\<close>

theorem objects_keys_counterexample:
  "''datastep.bin'' \<in> set (keys objects) \<and> ''datastep.bin'' \<notin> set doc_keys"
  by (simp add: keys_def objects_def doc_keys_eq)

text \<open>
  Claim C3, amended. No top-level key of \<open>objects\<close> is a document index: every one is
  the empty string or a dotted name that starts with \<open>datastep\<close>, the name of the module
  or class whose symbols the inner mapping lists.
\<close>

theorem objects_keys:
  "\<forall>k \<in> set (keys objects). k \<notin> set doc_keys \<and> (k = [] \<or> take 8 k = ''datastep'')"
  by (simp add: keys_def objects_def doc_keys_eq)

text \<open>Claim C3, amended, at the key \<open>datastep.step.Step\<close>.\<close>

theorem objects_keys_witness:
  "''datastep.step.Step'' \<in> set (keys objects) \<and> ''datastep.step.Step'' \<notin> set doc_keys \<and>
   take 8 ''datastep.step.Step'' = ''datastep''"
proof -
  have m: "''datastep.step.Step'' \<in> set (keys objects)"
    by (simp add: keys_def objects_def)
  from objects_keys m show ?thesis by auto
qed

subsection \<open>Keys of \<open>terms\<close>\<close>

text \<open>
  Claim C4 says that no key of \<open>terms\<close> contains an uppercase character. The key
  \<open>For\<close> is a key of \<open>terms\<close> and begins with one.
\<close>

theorem terms_keys_counterexample:
  "''For'' \<in> set (keys terms) \<and> has_upper ''For''"
  by code_simp

text \<open>
  Claim C4, amended. No key of \<open>terms\<close> contains an uppercase character after its first
  character, and the keys that contain one at all are the five keys \<open>For\<close>, \<open>The\<close>,
  \<open>Then\<close>, \<open>There\<close> and \<open>Useful\<close>.
\<close>

theorem terms_keys:
  "filter has_upper (keys terms) = [''For'', ''The'', ''Then'', ''There'', ''Useful''] \<and>
   list_all (\<lambda>k. \<not> has_upper (tl k)) (keys terms)"
  by code_simp

subsection \<open>Values of \<open>objects\<close>\<close>

text \<open>
  Claim C5. \<open>objects\<close> is an object whose values are objects, and every value of every
  one of these inner mappings is an array of exactly four elements: a natural number
  (the document index), a natural number (the object-type code), a natural number (the
  priority) and a string (the anchor).
\<close>

theorem objects_values_are_tuples:
  "is_obj objects \<and>
   (\<forall>(m, syms) \<in> set (entries objects).
      is_obj syms \<and> (\<forall>(nm, t) \<in> set (entries syms). tuple4 t))"
proof -
  have "is_obj objects" by (simp add: objects_def)
  with objects_tuples show ?thesis unfolding list_all_iff by blast
qed

text \<open>Claim C5, at the inner mapping of \<open>datastep.bin\<close> and its symbol \<open>make_new_step\<close>.\<close>

theorem objects_values_are_tuples_witness:
  "(''datastep.bin'', JObj [(''make_new_step'', JArr [JNum 2, JNum 0, JNum 0, JStr ''-''])])
     \<in> set (entries objects) \<and>
   tuple4 (JArr [JNum 2, JNum 0, JNum 0, JStr ''-''])"
proof -
  have o: "(''datastep.bin'', JObj [(''make_new_step'', JArr [JNum 2, JNum 0, JNum 0, JStr ''-''])])
     \<in> set (entries objects)"
    by (simp add: objects_def)
  from objects_values_are_tuples o
  have "\<forall>(nm, t) \<in> set (entries (JObj [(''make_new_step'', JArr [JNum 2, JNum 0, JNum 0, JStr ''-''])])).
      tuple4 t"
    by blast
  with o show ?thesis by simp
qed

subsection \<open>Documents and their files\<close>

text \<open>
  Claim C6. \<open>filenames\<close> is parallel to \<open>docnames\<close>: the two arrays have the same
  length, and at every index the file name is the document name followed by
  \<open>.rst\<close>.
\<close>

theorem filenames_parallel:
  "length (elems filenames) = length (elems docnames) \<and>
   (\<forall>i < length (elems docnames).
      \<exists>d. elems docnames ! i = JStr d \<and> elems filenames ! i = JStr (d @ ''.rst''))"
  using file_per_document by (auto simp add: list_all2_conv_all_nth)

text \<open>Claim C6, at index 2: the document \<open>datastep.bin\<close>.\<close>

theorem filenames_parallel_witness:
  "(2::nat) < length (elems docnames) \<and>
   elems docnames ! 2 = JStr ''datastep.bin'' \<and>
   elems filenames ! 2 = JStr ''datastep.bin.rst''"
proof -
  have l: "(2::nat) < length (elems docnames)" by (simp add: docnames_length)
  have d: "elems docnames ! 2 = JStr ''datastep.bin''" by (simp add: docnames_def)
  from filenames_parallel l
  have "\<exists>s. elems docnames ! 2 = JStr s \<and> elems filenames ! 2 = JStr (s @ ''.rst'')"
    by blast
  with l d show ?thesis by auto
qed

subsection \<open>Object types\<close>

text \<open>
  Claim C7. \<open>objnames\<close> and \<open>objtypes\<close> have the same keys, the codes \<open>0\<close> to
  \<open>4\<close>. The categories the codes stand for are module, class, function, exception and
  method: the middle element of the triple of \<open>objnames\<close> is the category, and the
  value of \<open>objtypes\<close> is \<open>py:\<close> followed by the category.
\<close>

theorem objnames_objtypes:
  "keys objnames = [''0'', ''1'', ''2'', ''3'', ''4''] \<and>
   keys objtypes = keys objnames \<and>
   map category_of (keys objnames) =
     [Some ''module'', Some ''class'', Some ''function'', Some ''exception'', Some ''method''] \<and>
   map objtype_of (keys objtypes) =
     map (\<lambda>c. map_option (\<lambda>cat. ''py:'' @ cat) (category_of c)) (keys objnames)"
  by (simp add: keys_def objnames_def objtypes_def category_of_def objtype_of_def)

subsection \<open>Titles\<close>

text \<open>
  Claim C8. \<open>titles\<close> holds one title string for each document: it has the length of
  \<open>docnames\<close>, each of its elements is a string, and every reference that is a value
  of \<open>titleterms\<close> is an index into \<open>titles\<close>.
\<close>

theorem titles_per_document:
  "length (elems titles) = length (elems docnames) \<and>
   (\<forall>t \<in> set (elems titles). is_str t) \<and>
   (\<forall>(k, v) \<in> set (entries titleterms). \<forall>d \<in> set (postings v). index_into (elems titles) d)"
proof -
  have "\<forall>t \<in> set (elems titles). is_str t" by (simp add: titles_def)
  with titleterms_title_refs titles_length docnames_length show ?thesis
    unfolding list_all_iff by simp
qed

text \<open>Claim C8, at the title token \<open>content\<close>, which refers to the titles 1 and 2.\<close>

theorem titles_per_document_witness:
  "(''content'', JArr [JNum 1, JNum 2]) \<in> set (entries titleterms) \<and>
   index_into (elems titles) (JNum 1) \<and> index_into (elems titles) (JNum 2) \<and>
   elems titles ! 1 \<in> set (elems titles) \<and> is_str (elems titles ! 1)"
proof -
  have tt: "(''content'', JArr [JNum 1, JNum 2]) \<in> set (entries titleterms)"
    by (simp add: titleterms_def)
  have m: "elems titles ! 1 \<in> set (elems titles)"
    by (simp add: titles_length)
  from titles_per_document tt
  have "\<forall>d \<in> set (postings (JArr [JNum 1, JNum 2])). index_into (elems titles) d"
    by blast
  moreover from titles_per_document m have "is_str (elems titles ! 1)"
    by blast
  ultimately show ?thesis using tt m by simp
qed

subsection \<open>Order of the postings\<close>

text \<open>
  Claim C9. In \<open>terms\<close> and in \<open>titleterms\<close>, every value that is an array is not
  empty and strictly increasing: each element is a number smaller than every later one.
\<close>

theorem postings_strictly_increasing:
  "\<forall>(k, v) \<in> set (entries terms) \<union> set (entries titleterms).
      \<forall>xs. v = JArr xs \<longrightarrow> xs \<noteq> [] \<and> sorted_wrt num_less xs"
  using terms_ascending titleterms_ascending
  unfolding list_all_iff by fastforce

text \<open>Claim C9, at the postings of the token \<open>alwai\<close>.\<close>

theorem postings_strictly_increasing_witness:
  "(''alwai'', JArr [JNum 0, JNum 1, JNum 4]) \<in> set (entries terms) \<union> set (entries titleterms) \<and>
   [JNum 0, JNum 1, JNum 4] \<noteq> [] \<and> sorted_wrt num_less [JNum 0, JNum 1, JNum 4]"
proof -
  have t: "(''alwai'', JArr [JNum 0, JNum 1, JNum 4]) \<in> set (entries terms)"
    by code_simp
  then have u: "(''alwai'', JArr [JNum 0, JNum 1, JNum 4])
      \<in> set (entries terms) \<union> set (entries titleterms)"
    by simp
  from postings_strictly_increasing u
  have "[JNum 0, JNum 1, JNum 4] \<noteq> [] \<and> sorted_wrt num_less [JNum 0, JNum 1, JNum 4]"
    by blast
  with u show ?thesis by simp
qed

subsection \<open>Type codes and priorities\<close>

text \<open>
  Claim C10. In every tuple of \<open>objects\<close> the second element, the object-type code, is
  a key of \<open>objnames\<close> and of \<open>objtypes\<close>, and the third element, the priority, is 0
  when the code is 0 and 1 otherwise.
\<close>

theorem type_codes_and_priorities:
  "\<forall>(m, syms) \<in> set (entries objects). \<forall>(nm, t) \<in> set (entries syms).
      case t of
        JArr [d, JNum c, JNum p, a] \<Rightarrow>
          field (key_of c) objnames \<noteq> None \<and> field (key_of c) objtypes \<noteq> None \<and>
          p = (if c = 0 then 0 else 1)
      | _ \<Rightarrow> False"
  using objects_type_codes unfolding list_all_iff by blast

text \<open>
  Claim C10, at the module \<open>make_new_step\<close> (code 0, priority 0) and at the exception
  \<open>PackagingError\<close> (code 3, priority 1).
\<close>

theorem type_codes_and_priorities_witness:
  "(''datastep.bin'', JObj [(''make_new_step'', JArr [JNum 2, JNum 0, JNum 0, JStr ''-''])])
     \<in> set (entries objects) \<and>
   field (key_of 0) objnames \<noteq> None \<and> field (key_of 0) objtypes \<noteq> None \<and>
   (0::int) = (if (0::int) = 0 then 0 else 1) \<and>
   (''PackagingError'', JArr [JNum 1, JNum 3, JNum 1, JStr ''''])
     \<in> set (entries (the (field ''datastep.exceptions'' objects))) \<and>
   field (key_of 3) objnames \<noteq> None \<and> field (key_of 3) objtypes \<noteq> None \<and>
   (1::int) = (if (3::int) = 0 then 0 else 1)"
proof -
  have o: "(''datastep.bin'', JObj [(''make_new_step'', JArr [JNum 2, JNum 0, JNum 0, JStr ''-''])])
     \<in> set (entries objects)"
    by (simp add: objects_def)
  from type_codes_and_priorities o
  have "\<forall>(nm, t) \<in> set (entries (JObj [(''make_new_step'', JArr [JNum 2, JNum 0, JNum 0, JStr ''-''])])).
      case t of
        JArr [d, JNum c, JNum p, a] \<Rightarrow>
          field (key_of c) objnames \<noteq> None \<and> field (key_of c) objtypes \<noteq> None \<and>
          p = (if c = 0 then 0 else 1)
      | _ \<Rightarrow> False"
    by blast
  then have a: "field (key_of 0) objnames \<noteq> None \<and> field (key_of 0) objtypes \<noteq> None"
    by simp
  have e: "(''datastep.exceptions'', the (field ''datastep.exceptions'' objects))
     \<in> set (entries objects)"
    by (simp add: objects_def)
  have p: "(''PackagingError'', JArr [JNum 1, JNum 3, JNum 1, JStr ''''])
     \<in> set (entries (the (field ''datastep.exceptions'' objects)))"
    by (simp add: objects_def)
  from type_codes_and_priorities e p
  have "case JArr [JNum 1, JNum 3, JNum 1, JStr ''''] of
        JArr [d, JNum c, JNum p, a] \<Rightarrow>
          field (key_of c) objnames \<noteq> None \<and> field (key_of c) objtypes \<noteq> None \<and>
          p = (if c = 0 then 0 else 1)
      | _ \<Rightarrow> False"
    by blast
  then have b: "field (key_of 3) objnames \<noteq> None \<and> field (key_of 3) objtypes \<noteq> None"
    by simp
  from o a p b show ?thesis by simp
qed

end
